theory Spec2Isabelle
  imports Main "HOL-Library.Sublist"
begin

section \<open>The configuration header of the Norn ESP32 sensor\<close>

text \<open>
  The source is \<^verbatim>\<open>arduino/norn_sensor/record_data/config.h\<close>: fifteen object-like
  macros inside an include guard. Each macro stands for one literal, a string literal or
  a decimal integer literal. The integer literals have the C++ type \<^verbatim>\<open>int\<close>; the
  header does no arithmetic on them, so they are modelled as \<^typ>\<open>int\<close>.
\<close>

subsection \<open>The macros, one constant per directive\<close>

text \<open>Wi-Fi configuration (lines 10 and 11).\<close>

definition WIFI_SSID :: string where
  "WIFI_SSID = ''YOUR_WIFI_SSID''"

definition WIFI_PASSWORD :: string where
  "WIFI_PASSWORD = ''YOUR_WIFI_PASSWORD''"

text \<open>Backend API configuration (lines 14 to 16). The port is a string literal.\<close>

definition BACKEND_HOST :: string where
  "BACKEND_HOST = ''192.168.1.100''"

definition BACKEND_PORT :: string where
  "BACKEND_PORT = ''8000''"

definition BACKEND_ENDPOINT :: string where
  "BACKEND_ENDPOINT = ''/api/v1/sensor/data''"

text \<open>Sensor configuration (lines 19 to 21).\<close>

definition SENSOR_RX_PIN :: int where
  "SENSOR_RX_PIN = 4"

definition SENSOR_TX_PIN :: int where
  "SENSOR_TX_PIN = 5"

definition SENSOR_BAUD_RATE :: int where
  "SENSOR_BAUD_RATE = 115200"

text \<open>Fall detection settings (lines 24 to 28).\<close>

definition FALL_INSTALL_HEIGHT :: int where
  "FALL_INSTALL_HEIGHT = 270"

definition FALL_TIME_THRESHOLD :: int where
  "FALL_TIME_THRESHOLD = 5"

definition FALL_UNMANNED_TIME :: int where
  "FALL_UNMANNED_TIME = 1"

definition FALL_RESIDENCE_TIME :: int where
  "FALL_RESIDENCE_TIME = 200"

definition FALL_SENSITIVITY :: int where
  "FALL_SENSITIVITY = 3"

text \<open>Data transmission settings (line 31) and HTTP server settings (line 34).\<close>

definition DATA_SEND_INTERVAL :: int where
  "DATA_SEND_INTERVAL = 1000"

definition HTTP_SERVER_PORT :: int where
  "HTTP_SERVER_PORT = 80"

subsection \<open>The header as the preprocessor reads it\<close>

text \<open>
  The replacement of a macro of this header is a string literal, an integer literal, or
  nothing at all (the guard macro \<^verbatim>\<open>CONFIG_H\<close> of line 2). The preprocessor's state
  is the table of the macros defined so far.
\<close>

datatype token = StrLit string | IntLit int | NoTokens

type_synonym macros = "string \<rightharpoonup> token"

text \<open>The \<^verbatim>\<open>#define\<close> directives of lines 10 to 34, in the order of the file.\<close>

definition config_h_defines :: "(string \<times> token) list" where
  "config_h_defines =
     [(''WIFI_SSID'', StrLit WIFI_SSID),
      (''WIFI_PASSWORD'', StrLit WIFI_PASSWORD),
      (''BACKEND_HOST'', StrLit BACKEND_HOST),
      (''BACKEND_PORT'', StrLit BACKEND_PORT),
      (''BACKEND_ENDPOINT'', StrLit BACKEND_ENDPOINT),
      (''SENSOR_RX_PIN'', IntLit SENSOR_RX_PIN),
      (''SENSOR_TX_PIN'', IntLit SENSOR_TX_PIN),
      (''SENSOR_BAUD_RATE'', IntLit SENSOR_BAUD_RATE),
      (''FALL_INSTALL_HEIGHT'', IntLit FALL_INSTALL_HEIGHT),
      (''FALL_TIME_THRESHOLD'', IntLit FALL_TIME_THRESHOLD),
      (''FALL_UNMANNED_TIME'', IntLit FALL_UNMANNED_TIME),
      (''FALL_RESIDENCE_TIME'', IntLit FALL_RESIDENCE_TIME),
      (''FALL_SENSITIVITY'', IntLit FALL_SENSITIVITY),
      (''DATA_SEND_INTERVAL'', IntLit DATA_SEND_INTERVAL),
      (''HTTP_SERVER_PORT'', IntLit HTTP_SERVER_PORT)]"

text \<open>
  A run of \<^verbatim>\<open>#define\<close> directives, first to last: each one enters its macro in the
  table, in the place of an earlier definition of the same name.
\<close>

primrec define_all :: "(string \<times> token) list \<Rightarrow> macros \<Rightarrow> macros" where
  "define_all [] env = env"
| "define_all (d # ds) env = define_all ds (env(fst d \<mapsto> snd d))"

text \<open>
  A guarded header: \<^verbatim>\<open>#ifndef G\<close>, \<^verbatim>\<open>#define G\<close>, the directives,
  \<^verbatim>\<open>#endif\<close>. When the guard macro is defined already, the whole body is skipped.
\<close>

definition include_guarded :: "string \<Rightarrow> (string \<times> token) list \<Rightarrow> macros \<Rightarrow> macros" where
  "include_guarded guard defines env =
     (case env guard of
        Some t \<Rightarrow> env
      | None \<Rightarrow> define_all defines (env(guard \<mapsto> NoTokens)))"

text \<open>Including \<^verbatim>\<open>config.h\<close> (lines 1 to 36).\<close>

definition config_h :: "macros \<Rightarrow> macros" where
  "config_h env = include_guarded ''CONFIG_H'' config_h_defines env"

subsection \<open>What the rest of the firmware can do with the header\<close>

text \<open>
  The header offers two things to a translation unit: it can be included (any number of
  times), and a macro name can be written where a value is wanted, which expands to the
  macro's replacement and leaves the table as it is. The header has no directive that
  removes or rebinds a macro.
\<close>

datatype operation = Include | Expand string

primrec perform :: "operation \<Rightarrow> macros \<Rightarrow> token option \<times> macros" where
  "perform Include env = (None, config_h env)"
| "perform (Expand name) env = (env name, env)"

primrec state_after :: "operation list \<Rightarrow> macros \<Rightarrow> macros" where
  "state_after [] env = env"
| "state_after (x # xs) env = state_after xs (snd (perform x env))"


subsection \<open>The record view of the specification\<close>

text \<open>
  Modelled from the spec: the header holds no record and no accessor, only the macros.
  The record DeviceConfig and its accessor "get configuration" follow the data model and
  the contract of the specification; every field is read from the macro of the header
  that carries it. A field gets a value only from a literal of its own type; a name that
  the table does not hold, or holds with no such literal, is returned as an error that
  names the macro.
\<close>

record DeviceConfig =
  wifiSsid :: string
  wifiPassword :: string
  backendHost :: string
  backendPort :: string
  backendEndpoint :: string
  sensorRxPin :: int
  sensorTxPin :: int
  sensorBaudRate :: int
  fallInstallHeightCm :: int
  fallTimeThresholdSec :: int
  fallUnmannedTimeSec :: int
  fallResidenceTimeSec :: int
  fallSensitivity :: int
  dataSendIntervalMs :: int
  httpServerPort :: int

datatype config_error = NotDefined string | NotText string | NotInteger string

text \<open>
  An integer literal without a suffix has the type \<^verbatim>\<open>int\<close> only from 0 to
  \<open>2\<^sup>3\<^sup>1 - 1\<close> (the 32-bit \<^verbatim>\<open>int\<close> of the ESP32); a sign is not part of a
  literal. A string literal is read as a text up to its first NUL character, so it
  stands for itself only when it holds none.
\<close>

definition int_literal :: "int \<Rightarrow> bool" where
  "int_literal i \<longleftrightarrow> 0 \<le> i \<and> i \<le> 2147483647"

definition text_literal :: "string \<Rightarrow> bool" where
  "text_literal s \<longleftrightarrow> CHR 0x00 \<notin> set s"

definition text_of :: "string \<Rightarrow> token option \<Rightarrow> config_error + string" where
  "text_of name t =
     (case t of
        None \<Rightarrow> Inl (NotDefined name)
      | Some (StrLit s) \<Rightarrow> if text_literal s then Inr s else Inl (NotText name)
      | Some (IntLit i) \<Rightarrow> Inl (NotText name)
      | Some NoTokens \<Rightarrow> Inl (NotText name))"

definition int_of :: "string \<Rightarrow> token option \<Rightarrow> config_error + int" where
  "int_of name t =
     (case t of
        None \<Rightarrow> Inl (NotDefined name)
      | Some (IntLit i) \<Rightarrow> if int_literal i then Inr i else Inl (NotInteger name)
      | Some (StrLit s) \<Rightarrow> Inl (NotInteger name)
      | Some NoTokens \<Rightarrow> Inl (NotInteger name))"

definition text_macro :: "macros \<Rightarrow> string \<Rightarrow> config_error + string" where
  "text_macro env name = text_of name (env name)"

definition int_macro :: "macros \<Rightarrow> string \<Rightarrow> config_error + int" where
  "int_macro env name = int_of name (env name)"

definition and_then :: "config_error + 'a \<Rightarrow> ('a \<Rightarrow> config_error + 'b) \<Rightarrow> config_error + 'b" where
  "and_then r f = (case r of Inl e \<Rightarrow> Inl e | Inr x \<Rightarrow> f x)"

definition get_configuration_of :: "macros \<Rightarrow> config_error + DeviceConfig" where
  "get_configuration_of env =
     and_then (text_macro env ''WIFI_SSID'') (\<lambda>ssid.
     and_then (text_macro env ''WIFI_PASSWORD'') (\<lambda>password.
     and_then (text_macro env ''BACKEND_HOST'') (\<lambda>host.
     and_then (text_macro env ''BACKEND_PORT'') (\<lambda>port.
     and_then (text_macro env ''BACKEND_ENDPOINT'') (\<lambda>endpoint.
     and_then (int_macro env ''SENSOR_RX_PIN'') (\<lambda>rx.
     and_then (int_macro env ''SENSOR_TX_PIN'') (\<lambda>tx.
     and_then (int_macro env ''SENSOR_BAUD_RATE'') (\<lambda>baud.
     and_then (int_macro env ''FALL_INSTALL_HEIGHT'') (\<lambda>height.
     and_then (int_macro env ''FALL_TIME_THRESHOLD'') (\<lambda>threshold.
     and_then (int_macro env ''FALL_UNMANNED_TIME'') (\<lambda>unmanned.
     and_then (int_macro env ''FALL_RESIDENCE_TIME'') (\<lambda>residence.
     and_then (int_macro env ''FALL_SENSITIVITY'') (\<lambda>sensitivity.
     and_then (int_macro env ''DATA_SEND_INTERVAL'') (\<lambda>interval.
     and_then (int_macro env ''HTTP_SERVER_PORT'') (\<lambda>http.
     Inr \<lparr>wifiSsid = ssid, wifiPassword = password, backendHost = host,
          backendPort = port, backendEndpoint = endpoint,
          sensorRxPin = rx, sensorTxPin = tx, sensorBaudRate = baud,
          fallInstallHeightCm = height, fallTimeThresholdSec = threshold,
          fallUnmannedTimeSec = unmanned, fallResidenceTimeSec = residence,
          fallSensitivity = sensitivity, dataSendIntervalMs = interval,
          httpServerPort = http\<rparr>)))))))))))))))"

text \<open>
  The accessor takes no input: it reads the table of a translation unit that has
  included the header and defined nothing before it.
\<close>

definition get_configuration :: "config_error + DeviceConfig" where
  "get_configuration = get_configuration_of (config_h Map.empty)"

subsection \<open>The header as a template\<close>

text \<open>
  Line 7 of the header reads "Copy this file and update with your actual values". The
  directives of the header with the values of a record in the place of the fifteen
  literals, in the order of the file:
\<close>

definition defines_of :: "DeviceConfig \<Rightarrow> (string \<times> token) list" where
  "defines_of c =
     [(''WIFI_SSID'', StrLit (wifiSsid c)),
      (''WIFI_PASSWORD'', StrLit (wifiPassword c)),
      (''BACKEND_HOST'', StrLit (backendHost c)),
      (''BACKEND_PORT'', StrLit (backendPort c)),
      (''BACKEND_ENDPOINT'', StrLit (backendEndpoint c)),
      (''SENSOR_RX_PIN'', IntLit (sensorRxPin c)),
      (''SENSOR_TX_PIN'', IntLit (sensorTxPin c)),
      (''SENSOR_BAUD_RATE'', IntLit (sensorBaudRate c)),
      (''FALL_INSTALL_HEIGHT'', IntLit (fallInstallHeightCm c)),
      (''FALL_TIME_THRESHOLD'', IntLit (fallTimeThresholdSec c)),
      (''FALL_UNMANNED_TIME'', IntLit (fallUnmannedTimeSec c)),
      (''FALL_RESIDENCE_TIME'', IntLit (fallResidenceTimeSec c)),
      (''FALL_SENSITIVITY'', IntLit (fallSensitivity c)),
      (''DATA_SEND_INTERVAL'', IntLit (dataSendIntervalMs c)),
      (''HTTP_SERVER_PORT'', IntLit (httpServerPort c))]"

text \<open>
  A record can be written into the header when each integer field is the value of an
  \<^verbatim>\<open>int\<close> literal and each text field the value of a string literal.
\<close>

definition representable :: "DeviceConfig \<Rightarrow> bool" where
  "representable c \<longleftrightarrow>
      text_literal (wifiSsid c) \<and>
      text_literal (wifiPassword c) \<and>
      text_literal (backendHost c) \<and>
      text_literal (backendPort c) \<and>
      text_literal (backendEndpoint c) \<and>
      int_literal (sensorRxPin c) \<and>
      int_literal (sensorTxPin c) \<and>
      int_literal (sensorBaudRate c) \<and>
      int_literal (fallInstallHeightCm c) \<and>
      int_literal (fallTimeThresholdSec c) \<and>
      int_literal (fallUnmannedTimeSec c) \<and>
      int_literal (fallResidenceTimeSec c) \<and>
      int_literal (fallSensitivity c) \<and>
      int_literal (dataSendIntervalMs c) \<and>
      int_literal (httpServerPort c)"

subsection \<open>The accessor as an operation on the macro table\<close>

text \<open>
  Modelled from the spec: the accessor as a sequence of the header's own operation
  \<open>Expand\<close>, one expansion per documented field, threading the macro table through
  them. It returns the record, or the first error, together with the table it leaves.
\<close>

definition expand_text :: "string \<Rightarrow> macros \<Rightarrow> (config_error + string) \<times> macros" where
  "expand_text name env =
     (case perform (Expand name) env of (t, env') \<Rightarrow> (text_of name t, env'))"

definition expand_int :: "string \<Rightarrow> macros \<Rightarrow> (config_error + int) \<times> macros" where
  "expand_int name env =
     (case perform (Expand name) env of (t, env') \<Rightarrow> (int_of name t, env'))"

definition then_expand ::
  "(macros \<Rightarrow> (config_error + 'a) \<times> macros) \<Rightarrow>
   ('a \<Rightarrow> macros \<Rightarrow> (config_error + 'b) \<times> macros) \<Rightarrow>
   macros \<Rightarrow> (config_error + 'b) \<times> macros" where
  "then_expand r f env =
     (case r env of
        (Inl e, env') \<Rightarrow> (Inl e, env')
      | (Inr x, env') \<Rightarrow> f x env')"

definition get_configuration_op :: "macros \<Rightarrow> (config_error + DeviceConfig) \<times> macros" where
  "get_configuration_op =
     then_expand (expand_text ''WIFI_SSID'') (\<lambda>ssid.
     then_expand (expand_text ''WIFI_PASSWORD'') (\<lambda>password.
     then_expand (expand_text ''BACKEND_HOST'') (\<lambda>host.
     then_expand (expand_text ''BACKEND_PORT'') (\<lambda>port.
     then_expand (expand_text ''BACKEND_ENDPOINT'') (\<lambda>endpoint.
     then_expand (expand_int ''SENSOR_RX_PIN'') (\<lambda>rx.
     then_expand (expand_int ''SENSOR_TX_PIN'') (\<lambda>tx.
     then_expand (expand_int ''SENSOR_BAUD_RATE'') (\<lambda>baud.
     then_expand (expand_int ''FALL_INSTALL_HEIGHT'') (\<lambda>height.
     then_expand (expand_int ''FALL_TIME_THRESHOLD'') (\<lambda>threshold.
     then_expand (expand_int ''FALL_UNMANNED_TIME'') (\<lambda>unmanned.
     then_expand (expand_int ''FALL_RESIDENCE_TIME'') (\<lambda>residence.
     then_expand (expand_int ''FALL_SENSITIVITY'') (\<lambda>sensitivity.
     then_expand (expand_int ''DATA_SEND_INTERVAL'') (\<lambda>interval.
     then_expand (expand_int ''HTTP_SERVER_PORT'') (\<lambda>http.
     Pair (Inr \<lparr>wifiSsid = ssid, wifiPassword = password, backendHost = host,
          backendPort = port, backendEndpoint = endpoint,
          sensorRxPin = rx, sensorTxPin = tx, sensorBaudRate = baud,
          fallInstallHeightCm = height, fallTimeThresholdSec = threshold,
          fallUnmannedTimeSec = unmanned, fallResidenceTimeSec = residence,
          fallSensitivity = sensitivity, dataSendIntervalMs = interval,
          httpServerPort = http\<rparr>))))))))))))))))"

subsection \<open>Reading a port given as text\<close>

text \<open>
  \<^verbatim>\<open>BACKEND_PORT\<close> is a string literal. Its decimal reading is the number that a
  non-empty string of the digits 0 to 9 denotes; any other string has none.
\<close>

definition digit_of :: "char \<Rightarrow> nat option" where
  "digit_of c =
     (let n = (of_char c :: nat) in if 48 \<le> n \<and> n \<le> 57 then Some (n - 48) else None)"

primrec decimal_from :: "nat \<Rightarrow> string \<Rightarrow> nat option" where
  "decimal_from acc [] = Some acc"
| "decimal_from acc (c # cs) =
     (case digit_of c of None \<Rightarrow> None | Some d \<Rightarrow> decimal_from (10 * acc + d) cs)"

definition decimal_reading :: "string \<Rightarrow> nat option" where
  "decimal_reading s = (if s = [] then None else decimal_from 0 s)"

section \<open>Properties\<close>

subsection \<open>The macro table after the header\<close>

lemma define_all_lookup:
  "define_all ds env name = (case map_of (rev ds) name of Some t \<Rightarrow> Some t | None \<Rightarrow> env name)"
proof (induction ds arbitrary: env)
  case Nil
  show ?case by simp
next
  case (Cons d ds)
  show ?case
    by (cases d) (simp add: Cons.IH map_add_def split: option.split)
qed

lemma define_all_keeps:
  "env name = Some t \<Longrightarrow> \<exists>u. define_all ds env name = Some u"
  by (simp add: define_all_lookup split: option.split)

text \<open>The guard makes a second inclusion a no-op, whatever the body defines.\<close>

lemma include_guarded_idem:
  "include_guarded g ds (include_guarded g ds env) = include_guarded g ds env"
proof (cases "env g")
  case None
  have "(env(g \<mapsto> NoTokens)) g = Some NoTokens"
    by simp
  then obtain u where "define_all ds (env(g \<mapsto> NoTokens)) g = Some u"
    using define_all_keeps by blast
  with None show ?thesis
    by (simp add: include_guarded_def)
next
  case (Some t)
  then show ?thesis
    by (simp add: include_guarded_def)
qed

lemma perform_after_header: "snd (perform x (config_h env)) = config_h env"
  by (cases x) (simp_all add: config_h_def include_guarded_idem)

lemma state_after_header: "state_after ops (config_h env) = config_h env"
  by (induction ops) (simp_all add: perform_after_header)

subsection \<open>Reading the record back\<close>

lemmas macro_values =
  WIFI_SSID_def WIFI_PASSWORD_def BACKEND_HOST_def BACKEND_PORT_def BACKEND_ENDPOINT_def
  SENSOR_RX_PIN_def SENSOR_TX_PIN_def SENSOR_BAUD_RATE_def FALL_INSTALL_HEIGHT_def
  FALL_TIME_THRESHOLD_def FALL_UNMANNED_TIME_def FALL_RESIDENCE_TIME_def
  FALL_SENSITIVITY_def DATA_SEND_INTERVAL_def HTTP_SERVER_PORT_def

text \<open>
  The header written from a representable record and included where the guard is not
  yet defined: every field reads back as written.
\<close>

lemma template_read_back:
  assumes "representable c" and "env ''CONFIG_H'' = None"
  shows "get_configuration_of (include_guarded ''CONFIG_H'' (defines_of c) env) = Inr c"
proof -
  let ?t = "define_all (defines_of c) (env(''CONFIG_H'' \<mapsto> NoTokens))"
  have "get_configuration_of ?t = Inr c"
    using assms(1)
    by (simp add: get_configuration_of_def defines_of_def representable_def
        text_macro_def int_macro_def text_of_def int_of_def and_then_def)
  moreover have "include_guarded ''CONFIG_H'' (defines_of c) env = ?t"
    using assms(2) by (simp add: include_guarded_def)
  ultimately show ?thesis
    by (simp only:)
qed

lemma header_is_template:
  "config_h_defines = defines_of \<lparr>wifiSsid = WIFI_SSID, wifiPassword = WIFI_PASSWORD,
          backendHost = BACKEND_HOST, backendPort = BACKEND_PORT,
          backendEndpoint = BACKEND_ENDPOINT,
          sensorRxPin = SENSOR_RX_PIN, sensorTxPin = SENSOR_TX_PIN,
          sensorBaudRate = SENSOR_BAUD_RATE,
          fallInstallHeightCm = FALL_INSTALL_HEIGHT,
          fallTimeThresholdSec = FALL_TIME_THRESHOLD,
          fallUnmannedTimeSec = FALL_UNMANNED_TIME,
          fallResidenceTimeSec = FALL_RESIDENCE_TIME,
          fallSensitivity = FALL_SENSITIVITY,
          dataSendIntervalMs = DATA_SEND_INTERVAL,
          httpServerPort = HTTP_SERVER_PORT\<rparr>"
  by (simp add: config_h_defines_def defines_of_def)

lemma header_representable:
  "representable \<lparr>wifiSsid = WIFI_SSID, wifiPassword = WIFI_PASSWORD,
          backendHost = BACKEND_HOST, backendPort = BACKEND_PORT,
          backendEndpoint = BACKEND_ENDPOINT,
          sensorRxPin = SENSOR_RX_PIN, sensorTxPin = SENSOR_TX_PIN,
          sensorBaudRate = SENSOR_BAUD_RATE,
          fallInstallHeightCm = FALL_INSTALL_HEIGHT,
          fallTimeThresholdSec = FALL_TIME_THRESHOLD,
          fallUnmannedTimeSec = FALL_UNMANNED_TIME,
          fallResidenceTimeSec = FALL_RESIDENCE_TIME,
          fallSensitivity = FALL_SENSITIVITY,
          dataSendIntervalMs = DATA_SEND_INTERVAL,
          httpServerPort = HTTP_SERVER_PORT\<rparr>"
  by (simp add: representable_def int_literal_def text_literal_def macro_values)

lemma config_h_read_back:
  assumes "env ''CONFIG_H'' = None"
  shows "get_configuration_of (config_h env) =
         Inr \<lparr>wifiSsid = WIFI_SSID, wifiPassword = WIFI_PASSWORD,
          backendHost = BACKEND_HOST, backendPort = BACKEND_PORT,
          backendEndpoint = BACKEND_ENDPOINT,
          sensorRxPin = SENSOR_RX_PIN, sensorTxPin = SENSOR_TX_PIN,
          sensorBaudRate = SENSOR_BAUD_RATE,
          fallInstallHeightCm = FALL_INSTALL_HEIGHT,
          fallTimeThresholdSec = FALL_TIME_THRESHOLD,
          fallUnmannedTimeSec = FALL_UNMANNED_TIME,
          fallResidenceTimeSec = FALL_RESIDENCE_TIME,
          fallSensitivity = FALL_SENSITIVITY,
          dataSendIntervalMs = DATA_SEND_INTERVAL,
          httpServerPort = HTTP_SERVER_PORT\<rparr>"
  unfolding config_h_def header_is_template
  using assms by (simp only: template_read_back header_representable)

lemma get_configuration_macros:
  "get_configuration =
     Inr \<lparr>wifiSsid = WIFI_SSID, wifiPassword = WIFI_PASSWORD,
          backendHost = BACKEND_HOST, backendPort = BACKEND_PORT,
          backendEndpoint = BACKEND_ENDPOINT,
          sensorRxPin = SENSOR_RX_PIN, sensorTxPin = SENSOR_TX_PIN,
          sensorBaudRate = SENSOR_BAUD_RATE,
          fallInstallHeightCm = FALL_INSTALL_HEIGHT,
          fallTimeThresholdSec = FALL_TIME_THRESHOLD,
          fallUnmannedTimeSec = FALL_UNMANNED_TIME,
          fallResidenceTimeSec = FALL_RESIDENCE_TIME,
          fallSensitivity = FALL_SENSITIVITY,
          dataSendIntervalMs = DATA_SEND_INTERVAL,
          httpServerPort = HTTP_SERVER_PORT\<rparr>"
  unfolding get_configuration_def
  by (rule config_h_read_back) simp

lemma decimal_reading_8000: "decimal_reading ''8000'' = Some 8000"
  by (simp add: decimal_reading_def digit_of_def)

subsection \<open>The accessor as an operation\<close>

lemma then_expand_text:
  assumes "\<And>x. f x env = (g x, env)"
  shows "then_expand (expand_text name) f env = (and_then (text_macro env name) g, env)"
  using assms
  by (simp add: then_expand_def expand_text_def and_then_def text_macro_def split: sum.split)

lemma then_expand_int:
  assumes "\<And>x. f x env = (g x, env)"
  shows "then_expand (expand_int name) f env = (and_then (int_macro env name) g, env)"
  using assms
  by (simp add: then_expand_def expand_int_def and_then_def int_macro_def split: sum.split)

lemma get_configuration_op_pure:
  "get_configuration_op env = (get_configuration_of env, env)"
  unfolding get_configuration_op_def get_configuration_of_def
  by (intro then_expand_text then_expand_int) (rule refl)

lemma header_table:
  assumes "env ''CONFIG_H'' = None"
  shows "config_h env ''WIFI_SSID'' = Some (StrLit WIFI_SSID) \<and>
         config_h env ''WIFI_PASSWORD'' = Some (StrLit WIFI_PASSWORD) \<and>
         config_h env ''BACKEND_HOST'' = Some (StrLit BACKEND_HOST) \<and>
         config_h env ''BACKEND_PORT'' = Some (StrLit BACKEND_PORT) \<and>
         config_h env ''BACKEND_ENDPOINT'' = Some (StrLit BACKEND_ENDPOINT) \<and>
         config_h env ''SENSOR_RX_PIN'' = Some (IntLit SENSOR_RX_PIN) \<and>
         config_h env ''SENSOR_TX_PIN'' = Some (IntLit SENSOR_TX_PIN) \<and>
         config_h env ''SENSOR_BAUD_RATE'' = Some (IntLit SENSOR_BAUD_RATE) \<and>
         config_h env ''FALL_INSTALL_HEIGHT'' = Some (IntLit FALL_INSTALL_HEIGHT) \<and>
         config_h env ''FALL_TIME_THRESHOLD'' = Some (IntLit FALL_TIME_THRESHOLD) \<and>
         config_h env ''FALL_UNMANNED_TIME'' = Some (IntLit FALL_UNMANNED_TIME) \<and>
         config_h env ''FALL_RESIDENCE_TIME'' = Some (IntLit FALL_RESIDENCE_TIME) \<and>
         config_h env ''FALL_SENSITIVITY'' = Some (IntLit FALL_SENSITIVITY) \<and>
         config_h env ''DATA_SEND_INTERVAL'' = Some (IntLit DATA_SEND_INTERVAL) \<and>
         config_h env ''HTTP_SERVER_PORT'' = Some (IntLit HTTP_SERVER_PORT)"
  using assms
  by (simp add: config_h_def include_guarded_def config_h_defines_def)

section \<open>The claims of the specification\<close>



text \<open>
  Claim C2. The configuration is immutable after initialization. Once the header has
  been included, no sequence of the header's operations (including it again, expanding a
  macro) changes the macro table; so expanding the same name at any two later points
  gives the same replacement, and the record read at any two later points is the same.
\<close>

theorem config_immutable_after_initialization:
  "state_after ops (config_h env) = config_h env \<and>
   fst (perform (Expand name) (state_after ops1 (config_h env))) =
     fst (perform (Expand name) (state_after ops2 (config_h env))) \<and>
   get_configuration_of (state_after ops1 (config_h env)) =
     get_configuration_of (state_after ops2 (config_h env))"
proof -
  have "state_after ops1 (config_h env) = state_after ops2 (config_h env)"
    by (simp only: state_after_header)
  then show ?thesis
    by (simp add: state_after_header)
qed

text \<open>
  Claim C3. The accessor takes no input, never fails, has no side effect and returns a
  fully populated record. In every translation unit that includes the header with the
  guard not defined before, there is one record such that every call of the accessor,
  after any sequence of operations, returns that record and leaves the macro table as it
  found it; each of the fifteen documented fields of the record is the literal that the
  header defines for its macro; and the accessor without input returns the same record.
  On any table at all, also where it fails, the accessor leaves the table unchanged.
\<close>

theorem get_configuration_never_fails:
  assumes "env ''CONFIG_H'' = None"
  shows "(\<exists>c. (\<forall>ops. get_configuration_op (state_after ops (config_h env)) =
                  (Inr c, state_after ops (config_h env))) \<and>
       get_configuration = Inr c \<and>
       config_h env ''WIFI_SSID'' = Some (StrLit (wifiSsid c)) \<and>
       config_h env ''WIFI_PASSWORD'' = Some (StrLit (wifiPassword c)) \<and>
       config_h env ''BACKEND_HOST'' = Some (StrLit (backendHost c)) \<and>
       config_h env ''BACKEND_PORT'' = Some (StrLit (backendPort c)) \<and>
       config_h env ''BACKEND_ENDPOINT'' = Some (StrLit (backendEndpoint c)) \<and>
       config_h env ''SENSOR_RX_PIN'' = Some (IntLit (sensorRxPin c)) \<and>
       config_h env ''SENSOR_TX_PIN'' = Some (IntLit (sensorTxPin c)) \<and>
       config_h env ''SENSOR_BAUD_RATE'' = Some (IntLit (sensorBaudRate c)) \<and>
       config_h env ''FALL_INSTALL_HEIGHT'' = Some (IntLit (fallInstallHeightCm c)) \<and>
       config_h env ''FALL_TIME_THRESHOLD'' = Some (IntLit (fallTimeThresholdSec c)) \<and>
       config_h env ''FALL_UNMANNED_TIME'' = Some (IntLit (fallUnmannedTimeSec c)) \<and>
       config_h env ''FALL_RESIDENCE_TIME'' = Some (IntLit (fallResidenceTimeSec c)) \<and>
       config_h env ''FALL_SENSITIVITY'' = Some (IntLit (fallSensitivity c)) \<and>
       config_h env ''DATA_SEND_INTERVAL'' = Some (IntLit (dataSendIntervalMs c)) \<and>
       config_h env ''HTTP_SERVER_PORT'' = Some (IntLit (httpServerPort c))) \<and>
   (\<forall>t. snd (get_configuration_op t) = t)"
proof -
  let ?c = "\<lparr>wifiSsid = WIFI_SSID, wifiPassword = WIFI_PASSWORD,
          backendHost = BACKEND_HOST, backendPort = BACKEND_PORT,
          backendEndpoint = BACKEND_ENDPOINT,
          sensorRxPin = SENSOR_RX_PIN, sensorTxPin = SENSOR_TX_PIN,
          sensorBaudRate = SENSOR_BAUD_RATE,
          fallInstallHeightCm = FALL_INSTALL_HEIGHT,
          fallTimeThresholdSec = FALL_TIME_THRESHOLD,
          fallUnmannedTimeSec = FALL_UNMANNED_TIME,
          fallResidenceTimeSec = FALL_RESIDENCE_TIME,
          fallSensitivity = FALL_SENSITIVITY,
          dataSendIntervalMs = DATA_SEND_INTERVAL,
          httpServerPort = HTTP_SERVER_PORT\<rparr>"
  have "get_configuration_op (state_after ops (config_h env)) =
          (Inr ?c, state_after ops (config_h env))" for ops
    using assms by (simp only: state_after_header get_configuration_op_pure config_h_read_back)
  moreover have "get_configuration = Inr ?c"
    by (rule get_configuration_macros)
  moreover have "config_h env ''WIFI_SSID'' = Some (StrLit WIFI_SSID) \<and>
       config_h env ''WIFI_PASSWORD'' = Some (StrLit WIFI_PASSWORD) \<and>
       config_h env ''BACKEND_HOST'' = Some (StrLit BACKEND_HOST) \<and>
       config_h env ''BACKEND_PORT'' = Some (StrLit BACKEND_PORT) \<and>
       config_h env ''BACKEND_ENDPOINT'' = Some (StrLit BACKEND_ENDPOINT) \<and>
       config_h env ''SENSOR_RX_PIN'' = Some (IntLit SENSOR_RX_PIN) \<and>
       config_h env ''SENSOR_TX_PIN'' = Some (IntLit SENSOR_TX_PIN) \<and>
       config_h env ''SENSOR_BAUD_RATE'' = Some (IntLit SENSOR_BAUD_RATE) \<and>
       config_h env ''FALL_INSTALL_HEIGHT'' = Some (IntLit FALL_INSTALL_HEIGHT) \<and>
       config_h env ''FALL_TIME_THRESHOLD'' = Some (IntLit FALL_TIME_THRESHOLD) \<and>
       config_h env ''FALL_UNMANNED_TIME'' = Some (IntLit FALL_UNMANNED_TIME) \<and>
       config_h env ''FALL_RESIDENCE_TIME'' = Some (IntLit FALL_RESIDENCE_TIME) \<and>
       config_h env ''FALL_SENSITIVITY'' = Some (IntLit FALL_SENSITIVITY) \<and>
       config_h env ''DATA_SEND_INTERVAL'' = Some (IntLit DATA_SEND_INTERVAL) \<and>
       config_h env ''HTTP_SERVER_PORT'' = Some (IntLit HTTP_SERVER_PORT)"
    using assms by (rule header_table)
  ultimately have "(\<forall>ops. get_configuration_op (state_after ops (config_h env)) =
                  (Inr ?c, state_after ops (config_h env))) \<and>
       get_configuration = Inr ?c \<and>
       config_h env ''WIFI_SSID'' = Some (StrLit (wifiSsid ?c)) \<and>
       config_h env ''WIFI_PASSWORD'' = Some (StrLit (wifiPassword ?c)) \<and>
       config_h env ''BACKEND_HOST'' = Some (StrLit (backendHost ?c)) \<and>
       config_h env ''BACKEND_PORT'' = Some (StrLit (backendPort ?c)) \<and>
       config_h env ''BACKEND_ENDPOINT'' = Some (StrLit (backendEndpoint ?c)) \<and>
       config_h env ''SENSOR_RX_PIN'' = Some (IntLit (sensorRxPin ?c)) \<and>
       config_h env ''SENSOR_TX_PIN'' = Some (IntLit (sensorTxPin ?c)) \<and>
       config_h env ''SENSOR_BAUD_RATE'' = Some (IntLit (sensorBaudRate ?c)) \<and>
       config_h env ''FALL_INSTALL_HEIGHT'' = Some (IntLit (fallInstallHeightCm ?c)) \<and>
       config_h env ''FALL_TIME_THRESHOLD'' = Some (IntLit (fallTimeThresholdSec ?c)) \<and>
       config_h env ''FALL_UNMANNED_TIME'' = Some (IntLit (fallUnmannedTimeSec ?c)) \<and>
       config_h env ''FALL_RESIDENCE_TIME'' = Some (IntLit (fallResidenceTimeSec ?c)) \<and>
       config_h env ''FALL_SENSITIVITY'' = Some (IntLit (fallSensitivity ?c)) \<and>
       config_h env ''DATA_SEND_INTERVAL'' = Some (IntLit (dataSendIntervalMs ?c)) \<and>
       config_h env ''HTTP_SERVER_PORT'' = Some (IntLit (httpServerPort ?c))"
    by simp
  then have "\<exists>c. (\<forall>ops. get_configuration_op (state_after ops (config_h env)) =
                  (Inr c, state_after ops (config_h env))) \<and>
       get_configuration = Inr c \<and>
       config_h env ''WIFI_SSID'' = Some (StrLit (wifiSsid c)) \<and>
       config_h env ''WIFI_PASSWORD'' = Some (StrLit (wifiPassword c)) \<and>
       config_h env ''BACKEND_HOST'' = Some (StrLit (backendHost c)) \<and>
       config_h env ''BACKEND_PORT'' = Some (StrLit (backendPort c)) \<and>
       config_h env ''BACKEND_ENDPOINT'' = Some (StrLit (backendEndpoint c)) \<and>
       config_h env ''SENSOR_RX_PIN'' = Some (IntLit (sensorRxPin c)) \<and>
       config_h env ''SENSOR_TX_PIN'' = Some (IntLit (sensorTxPin c)) \<and>
       config_h env ''SENSOR_BAUD_RATE'' = Some (IntLit (sensorBaudRate c)) \<and>
       config_h env ''FALL_INSTALL_HEIGHT'' = Some (IntLit (fallInstallHeightCm c)) \<and>
       config_h env ''FALL_TIME_THRESHOLD'' = Some (IntLit (fallTimeThresholdSec c)) \<and>
       config_h env ''FALL_UNMANNED_TIME'' = Some (IntLit (fallUnmannedTimeSec c)) \<and>
       config_h env ''FALL_RESIDENCE_TIME'' = Some (IntLit (fallResidenceTimeSec c)) \<and>
       config_h env ''FALL_SENSITIVITY'' = Some (IntLit (fallSensitivity c)) \<and>
       config_h env ''DATA_SEND_INTERVAL'' = Some (IntLit (dataSendIntervalMs c)) \<and>
       config_h env ''HTTP_SERVER_PORT'' = Some (IntLit (httpServerPort c))"
    by (rule exI)
  moreover have "\<forall>t. snd (get_configuration_op t) = t"
    by (simp add: get_configuration_op_pure)
  ultimately show ?thesis
    by (rule conjI)
qed

text \<open>Claim C3 at a translation unit that defines nothing before the header.\<close>

theorem get_configuration_never_fails_witness:
  "(Map.empty :: macros) ''CONFIG_H'' = None \<and>
   (\<exists>c. (\<forall>ops. get_configuration_op (state_after ops (config_h Map.empty)) =
                  (Inr c, state_after ops (config_h Map.empty))) \<and>
       get_configuration = Inr c \<and>
       config_h Map.empty ''WIFI_SSID'' = Some (StrLit (wifiSsid c)) \<and>
       config_h Map.empty ''WIFI_PASSWORD'' = Some (StrLit (wifiPassword c)) \<and>
       config_h Map.empty ''BACKEND_HOST'' = Some (StrLit (backendHost c)) \<and>
       config_h Map.empty ''BACKEND_PORT'' = Some (StrLit (backendPort c)) \<and>
       config_h Map.empty ''BACKEND_ENDPOINT'' = Some (StrLit (backendEndpoint c)) \<and>
       config_h Map.empty ''SENSOR_RX_PIN'' = Some (IntLit (sensorRxPin c)) \<and>
       config_h Map.empty ''SENSOR_TX_PIN'' = Some (IntLit (sensorTxPin c)) \<and>
       config_h Map.empty ''SENSOR_BAUD_RATE'' = Some (IntLit (sensorBaudRate c)) \<and>
       config_h Map.empty ''FALL_INSTALL_HEIGHT'' = Some (IntLit (fallInstallHeightCm c)) \<and>
       config_h Map.empty ''FALL_TIME_THRESHOLD'' = Some (IntLit (fallTimeThresholdSec c)) \<and>
       config_h Map.empty ''FALL_UNMANNED_TIME'' = Some (IntLit (fallUnmannedTimeSec c)) \<and>
       config_h Map.empty ''FALL_RESIDENCE_TIME'' = Some (IntLit (fallResidenceTimeSec c)) \<and>
       config_h Map.empty ''FALL_SENSITIVITY'' = Some (IntLit (fallSensitivity c)) \<and>
       config_h Map.empty ''DATA_SEND_INTERVAL'' = Some (IntLit (dataSendIntervalMs c)) \<and>
       config_h Map.empty ''HTTP_SERVER_PORT'' = Some (IntLit (httpServerPort c))) \<and>
   (\<forall>t. snd (get_configuration_op t) = t)"
proof -
  from get_configuration_never_fails [where env = Map.empty] show ?thesis
    by simp
qed

text \<open>
  Claim C5. The fall sensitivity of the configuration is an integer in the inclusive
  range from 1 to 5: the header's value is 3.
\<close>

theorem fall_sensitivity_in_range:
  "\<exists>c. get_configuration = Inr c \<and> fallSensitivity c = 3 \<and>
       1 \<le> fallSensitivity c \<and> fallSensitivity c \<le> 5"
  by (simp add: get_configuration_macros FALL_SENSITIVITY_def)

text \<open>
  Claim C6. Both ports lie in the inclusive range from 1 to 65535: the HTTP server port
  as an integer, the backend port (a text) under its decimal reading.
\<close>

theorem ports_in_range:
  "\<exists>c p. get_configuration = Inr c \<and>
       1 \<le> httpServerPort c \<and> httpServerPort c \<le> 65535 \<and>
       decimal_reading (backendPort c) = Some p \<and> 1 \<le> p \<and> p \<le> 65535"
proof -
  have "decimal_reading BACKEND_PORT = Some 8000"
    by (simp only: BACKEND_PORT_def decimal_reading_8000)
  then show ?thesis
    by (simp add: get_configuration_macros HTTP_SERVER_PORT_def)
qed

text \<open>
  Claim C7. The backend endpoint of the configuration is a path that starts with the
  character "/".
\<close>

theorem backend_endpoint_starts_with_slash:
  "\<exists>c. get_configuration = Inr c \<and> prefix ''/'' (backendEndpoint c)"
  by (simp add: get_configuration_macros BACKEND_ENDPOINT_def)

text \<open>
  Claim C8. Every numeric tuning field of the configuration is a positive integer: the
  baud rate, the installation height, the three fall detection times and the data send
  interval are all greater than zero.
\<close>

theorem tuning_fields_positive:
  "\<exists>c. get_configuration = Inr c \<and>
       0 < sensorBaudRate c \<and> 0 < fallInstallHeightCm c \<and>
       0 < fallTimeThresholdSec c \<and> 0 < fallUnmannedTimeSec c \<and>
       0 < fallResidenceTimeSec c \<and> 0 < dataSendIntervalMs c"
  by (simp add: get_configuration_macros SENSOR_BAUD_RATE_def FALL_INSTALL_HEIGHT_def
      FALL_TIME_THRESHOLD_def FALL_UNMANNED_TIME_def FALL_RESIDENCE_TIME_def
      DATA_SEND_INTERVAL_def)

text \<open>
  Claim C9. The Wi-Fi SSID, the Wi-Fi password and the backend host of the configuration
  are non-empty strings.
\<close>

theorem text_fields_non_empty:
  "\<exists>c. get_configuration = Inr c \<and>
       wifiSsid c \<noteq> [] \<and> wifiPassword c \<noteq> [] \<and> backendHost c \<noteq> []"
  by (simp add: get_configuration_macros WIFI_SSID_def WIFI_PASSWORD_def BACKEND_HOST_def)

text \<open>
  Claim C10. The UART pins are distinct and valid for the board: the receive pin is 4,
  the transmit pin is 5, they differ, and each lies in the ESP32 GPIO range from 0 to 39.
\<close>

theorem uart_pins_distinct_and_valid:
  "\<exists>c. get_configuration = Inr c \<and>
       sensorRxPin c = 4 \<and> sensorTxPin c = 5 \<and> sensorRxPin c \<noteq> sensorTxPin c \<and>
       0 \<le> sensorRxPin c \<and> sensorRxPin c \<le> 39 \<and>
       0 \<le> sensorTxPin c \<and> sensorTxPin c \<le> 39"
  by (simp add: get_configuration_macros SENSOR_RX_PIN_def SENSOR_TX_PIN_def)

end
